theory Spec2Isabelle
  imports Complex_Main "HOL-Library.Sublist" "HOL-Library.AList"
begin

section \<open>Python values, the object store and the exceptions of \<open>main.py\<close>\<close>

text \<open>
  \<open>CONVERSATION_ARCS\<close> is what \<open>yaml.safe_load\<close> returns: nested dicts and lists over
  scalars. Dicts and lists are mutable objects with identity, so they live in a store
  (a list of objects, the address of an object is its index) and a value refers to them by
  address; \<open>dict.copy()\<close> allocates a new object at the end of the store. A dict is an
  association list in insertion order with distinct keys, the keys being strings.
  Strings are lists of characters; YAML floats are values of their own, printed by the
  parameter \<open>so\<close> of \<open>py_str\<close> below.
\<close>

type_synonym addr = nat

datatype pyval = VNone | VBool bool | VInt int | VFloat rat | VStr string | VRef addr

datatype pyobj = ODict "(string \<times> pyval) list" | OList "pyval list"

type_synonym heap = "pyobj list"

datatype py_error =
    KeyError string
  | TypeError
  | AttributeError
  | IndexError
  | ValueError
  | NotModelled

definition bindE :: "'e + 'a \<Rightarrow> ('a \<Rightarrow> 'e + 'b) \<Rightarrow> 'e + 'b" where
  "bindE m f = (case m of Inl e \<Rightarrow> Inl e | Inr x \<Rightarrow> f x)"

definition deref :: "heap \<Rightarrow> addr \<Rightarrow> pyobj option" where
  "deref h a = (if a < length h then Some (h ! a) else None)"

text \<open>\<open>v[k]\<close> for a string key \<open>k\<close>: a dict looks the key up (KeyError when it is
  missing); a list, a string and every scalar raise TypeError.\<close>

definition subscript :: "heap \<Rightarrow> pyval \<Rightarrow> string \<Rightarrow> py_error + pyval" where
  "subscript h v k =
     (case v of
        VRef a \<Rightarrow>
          (case deref h a of
             Some (ODict kvs) \<Rightarrow>
               (case map_of kvs k of None \<Rightarrow> Inl (KeyError k) | Some x \<Rightarrow> Inr x)
           | _ \<Rightarrow> Inl TypeError)
      | _ \<Rightarrow> Inl TypeError)"

text \<open>\<open>v[k1][k2]\<close>, evaluated left to right.\<close>

definition subscript2 :: "heap \<Rightarrow> pyval \<Rightarrow> string \<Rightarrow> string \<Rightarrow> py_error + pyval" where
  "subscript2 h v k1 k2 = bindE (subscript h v k1) (\<lambda>w. subscript h w k2)"

text \<open>\<open>v.copy()\<close>: dicts and lists have the method and return a new object with the same
  entries (the entries themselves are not copied); other values raise AttributeError.\<close>

definition py_copy :: "heap \<Rightarrow> pyval \<Rightarrow> heap \<times> (py_error + pyval)" where
  "py_copy h v =
     (case v of
        VRef a \<Rightarrow>
          (case deref h a of
             Some obj \<Rightarrow> (h @ [obj], Inr (VRef (length h)))
           | None \<Rightarrow> (h, Inl AttributeError))
      | _ \<Rightarrow> (h, Inl AttributeError))"

text \<open>\<open>target[k] = x\<close> for a string key: a dict is updated in place (an existing key keeps
  its position, a new key goes last); a list and every other value raise TypeError.\<close>

definition setitem :: "heap \<Rightarrow> pyval \<Rightarrow> string \<Rightarrow> pyval \<Rightarrow> py_error + heap" where
  "setitem h target k x =
     (case target of
        VRef a \<Rightarrow>
          (case deref h a of
             Some (ODict kvs) \<Rightarrow> Inr (h[a := ODict (AList.update k x kvs)])
           | _ \<Rightarrow> Inl TypeError)
      | _ \<Rightarrow> Inl TypeError)"

section \<open>Helper functions of \<open>main.py\<close>: \<open>load_conversation_arc\<close>\<close>

text \<open>
  \<open>load_conversation_arc(duration, age)\<close>, lines 91-106. \<open>C\<close> is the value of the global
  \<open>CONVERSATION_ARCS\<close>. The store is threaded through; it is returned also when an
  exception is raised, since the copy has been allocated by then.
\<close>

definition load_conversation_arc ::
  "pyval \<Rightarrow> heap \<Rightarrow> string \<Rightarrow> int \<Rightarrow> heap \<times> (py_error + pyval)" where
  "load_conversation_arc C h duration age =
     (case subscript2 h C ''arcs'' duration of
        Inl e \<Rightarrow> (h, Inl e)
      | Inr arc \<Rightarrow>
     (case py_copy h arc of
        (h1, Inl e) \<Rightarrow> (h1, Inl e)
      | (h1, Inr arc_data) \<Rightarrow>
     (case (if age \<le> 4 then subscript2 h1 C ''age_adaptations'' ''ages_2_4''
            else if age \<le> 8 then subscript2 h1 C ''age_adaptations'' ''ages_5_8''
            else subscript2 h1 C ''age_adaptations'' ''ages_9_12'') of
        Inl e \<Rightarrow> (h1, Inl e)
      | Inr adaptation \<Rightarrow>
     (case setitem h1 arc_data ''age_adaptation'' adaptation of
        Inl e \<Rightarrow> (h1, Inl e)
      | Inr h2 \<Rightarrow>
     (case subscript2 h2 C ''timing_guidelines'' duration of
        Inl e \<Rightarrow> (h2, Inl e)
      | Inr timing \<Rightarrow>
     (case setitem h2 arc_data ''timing'' timing of
        Inl e \<Rightarrow> (h2, Inl e)
      | Inr h3 \<Rightarrow> (h3, Inr arc_data)))))))"

text \<open>Repeated calls, each on the store the previous one left; a call that raised is
  over, and the next one runs all the same (each request is handled on its own).\<close>

fun load_calls :: "pyval \<Rightarrow> heap \<Rightarrow> (string \<times> int) list \<Rightarrow> heap" where
  "load_calls C h [] = h"
| "load_calls C h ((duration, age) # calls) =
     load_calls C (fst (load_conversation_arc C h duration age)) calls"

section \<open>Python's built-in string operations used by \<open>main.py\<close>\<close>

text \<open>\<open>str(n)\<close> for an integer: the decimal digits, with a minus sign when negative.\<close>

definition digit_char :: "nat \<Rightarrow> char" where
  "digit_char d = char_of (48 + d)"

function str_nat :: "nat \<Rightarrow> string" where
  "str_nat n = (if n < 10 then [digit_char n] else str_nat (n div 10) @ [digit_char (n mod 10)])"
  by pat_completeness auto
termination
  by (relation "measure id") auto

declare str_nat.simps [simp del]

definition str_int :: "int \<Rightarrow> string" where
  "str_int i = (if i < 0 then CHR ''-'' # str_nat (nat (- i)) else str_nat (nat i))"

text \<open>
  \<open>str(v)\<close>, as an f-string field \<open>{v}\<close> prints it. Strings, integers, booleans and
  \<open>None\<close> are printed as Python does. The printed form of a float and of a container (its
  \<open>repr\<close>) is the parameter \<open>so\<close>: nothing below depends on it.
\<close>

definition py_str :: "(heap \<Rightarrow> pyval \<Rightarrow> string) \<Rightarrow> heap \<Rightarrow> pyval \<Rightarrow> string" where
  "py_str so h v =
     (case v of
        VStr s \<Rightarrow> s
      | VInt i \<Rightarrow> str_int i
      | VBool b \<Rightarrow> (if b then ''True'' else ''False'')
      | VNone \<Rightarrow> ''None''
      | _ \<Rightarrow> so h v)"

text \<open>Iterating a value (\<open>for x in v\<close>) and \<open>len(v)\<close>: a list gives its elements, a dict
  its keys, a string its characters; every other value raises TypeError.\<close>

definition py_iter :: "heap \<Rightarrow> pyval \<Rightarrow> py_error + pyval list" where
  "py_iter h v =
     (case v of
        VRef a \<Rightarrow>
          (case deref h a of
             Some (OList xs) \<Rightarrow> Inr xs
           | Some (ODict kvs) \<Rightarrow> Inr (map (\<lambda>kv. VStr (fst kv)) kvs)
           | None \<Rightarrow> Inl TypeError)
      | VStr s \<Rightarrow> Inr (map (\<lambda>c. VStr [c]) s)
      | _ \<Rightarrow> Inl TypeError)"

definition py_len :: "heap \<Rightarrow> pyval \<Rightarrow> py_error + int" where
  "py_len h v =
     (case v of
        VRef a \<Rightarrow>
          (case deref h a of
             Some (OList xs) \<Rightarrow> Inr (int (length xs))
           | Some (ODict kvs) \<Rightarrow> Inr (int (length kvs))
           | None \<Rightarrow> Inl TypeError)
      | VStr s \<Rightarrow> Inr (int (length s))
      | _ \<Rightarrow> Inl TypeError)"

text \<open>\<open>k in v\<close> where \<open>v\<close> is a dict (the only case \<open>create_system_prompt\<close> reaches: the
  subscripts before it have already raised on anything else).\<close>

definition py_in_dict :: "heap \<Rightarrow> string \<Rightarrow> pyval \<Rightarrow> py_error + bool" where
  "py_in_dict h k v =
     (case v of
        VRef a \<Rightarrow>
          (case deref h a of
             Some (ODict kvs) \<Rightarrow> Inr (k \<in> set (map fst kvs))
           | _ \<Rightarrow> Inl TypeError)
      | _ \<Rightarrow> Inl TypeError)"

text \<open>\<open>sep.join(xs)\<close>.\<close>

fun py_join :: "string \<Rightarrow> string list \<Rightarrow> string" where
  "py_join sep [] = []"
| "py_join sep [x] = x"
| "py_join sep (x # y # ys) = x @ sep @ py_join sep (y # ys)"

text \<open>
  \<open>s.replace('_', ' ')\<close> and \<open>s.title()\<close>. \<open>title\<close> upper-cases a letter that does not
  follow a letter and lower-cases one that does. Letters are the ASCII letters: other
  characters are left as they are and count as uncased.
\<close>

definition is_upper :: "char \<Rightarrow> bool" where
  "is_upper c = (65 \<le> (of_char c :: nat) \<and> (of_char c :: nat) \<le> 90)"

definition is_lower :: "char \<Rightarrow> bool" where
  "is_lower c = (97 \<le> (of_char c :: nat) \<and> (of_char c :: nat) \<le> 122)"

definition to_upper :: "char \<Rightarrow> char" where
  "to_upper c = (if is_lower c then char_of ((of_char c :: nat) - 32) else c)"

definition to_lower :: "char \<Rightarrow> char" where
  "to_lower c = (if is_upper c then char_of ((of_char c :: nat) + 32) else c)"

definition replace_underscores :: "string \<Rightarrow> string" where
  "replace_underscores s = map (\<lambda>c. if c = CHR ''_'' then CHR '' '' else c) s"

fun title_from :: "bool \<Rightarrow> string \<Rightarrow> string" where
  "title_from previous_is_cased [] = []"
| "title_from previous_is_cased (c # cs) =
     (if is_lower c then
        (if previous_is_cased then c else to_upper c) # title_from True cs
      else if is_upper c then
        (if previous_is_cased then to_lower c else c) # title_from True cs
      else c # title_from False cs)"

definition title :: "string \<Rightarrow> string" where
  "title s = title_from False s"

text \<open>
  \<open>template.format(**kwargs)\<close> with string arguments, in one pass from left to right as
  CPython does it: \<open>{{\<close> and \<open>}}\<close> are the escaped braces, a lone \<open>}\<close> and an unclosed
  \<open>{\<close> raise ValueError, \<open>{name}\<close> is replaced by the argument of that name (KeyError when
  there is none; IndexError for \<open>{}\<close> and \<open>{0}\<close>, since there is no positional argument).
  A field with a conversion, a format specification, an attribute or an index
  (\<open>!\<close>, \<open>:\<close>, \<open>.\<close>, \<open>[\<close>, a nested \<open>{\<close>) is outside this model: \<open>NotModelled\<close>.
\<close>

fun split_field :: "string \<Rightarrow> (string \<times> string) option" where
  "split_field [] = None"
| "split_field (c # cs) =
     (if c = CHR ''}'' then Some ([], cs)
      else (case split_field cs of None \<Rightarrow> None | Some (f, r) \<Rightarrow> Some (c # f, r)))"

definition is_digit :: "char \<Rightarrow> bool" where
  "is_digit c = (48 \<le> (of_char c :: nat) \<and> (of_char c :: nat) \<le> 57)"

definition lookup_field :: "(string \<times> string) list \<Rightarrow> string \<Rightarrow> py_error + string" where
  "lookup_field kwargs field =
     (if \<exists>c \<in> set field. c \<in> set ''.[!:{'' then Inl NotModelled
      else if field = [] \<or> list_all is_digit field then Inl IndexError
      else (case map_of kwargs field of None \<Rightarrow> Inl (KeyError field) | Some v \<Rightarrow> Inr v))"

lemma split_field_shorter: "split_field cs = Some (f, r) \<Longrightarrow> length r < length cs"
  by (induction cs arbitrary: f r) (auto split: if_splits option.splits)

function py_format :: "(string \<times> string) list \<Rightarrow> string \<Rightarrow> py_error + string" where
  "py_format kwargs [] = Inr []"
| "py_format kwargs (c # cs) =
     (if c = CHR ''}'' then
        (case cs of
           [] \<Rightarrow> Inl ValueError
         | d # rest \<Rightarrow>
             if d = CHR ''}'' then bindE (py_format kwargs rest) (\<lambda>out. Inr (CHR ''}'' # out))
             else Inl ValueError)
      else if c = CHR ''{'' then
        (case cs of
           [] \<Rightarrow> Inl ValueError
         | d # rest \<Rightarrow>
             if d = CHR ''{'' then bindE (py_format kwargs rest) (\<lambda>out. Inr (CHR ''{'' # out))
             else
               (case split_field cs of
                  None \<Rightarrow> Inl ValueError
                | Some (field, after) \<Rightarrow>
                    bindE (lookup_field kwargs field) (\<lambda>v.
                    bindE (py_format kwargs after) (\<lambda>out. Inr (v @ out)))))
      else bindE (py_format kwargs cs) (\<lambda>out. Inr (c # out)))"
  by pat_completeness auto
termination
  by (relation "measure (\<lambda>(kwargs, s). length s)")
    (auto dest!: split_field_shorter split: if_splits option.splits)

section \<open>\<open>generate_greeting\<close>\<close>

text \<open>
  \<open>random.choice(seq)\<close>: IndexError on an empty sequence, else the element at an index
  below its length. The random source is the argument \<open>rnd\<close>, reduced modulo the length,
  so that every outcome of the choice is the outcome for some \<open>rnd\<close>. A string gives one
  of its characters. A non-empty dict is subscripted with the integer index, which is not
  among its (string) keys.
\<close>

definition random_choice :: "heap \<Rightarrow> nat \<Rightarrow> pyval \<Rightarrow> py_error + pyval" where
  "random_choice h rnd seq =
     (case seq of
        VRef a \<Rightarrow>
          (case deref h a of
             Some (OList xs) \<Rightarrow>
               if xs = [] then Inl IndexError else Inr (xs ! (rnd mod length xs))
           | Some (ODict kvs) \<Rightarrow>
               if kvs = [] then Inl IndexError
               else Inl (KeyError (str_int (int (rnd mod length kvs))))
           | None \<Rightarrow> Inl TypeError)
      | VStr s \<Rightarrow> if s = [] then Inl IndexError else Inr (VStr [s ! (rnd mod length s)])
      | _ \<Rightarrow> Inl TypeError)"

text \<open>\<open>template.format(child_name=child_name, child=child_term)\<close>: only a string has the
  method.\<close>

definition format_template :: "pyval \<Rightarrow> string \<Rightarrow> string \<Rightarrow> py_error + string" where
  "format_template template child_name child_term =
     (case template of
        VStr t \<Rightarrow> py_format [(''child_name'', child_name), (''child'', child_term)] t
      | _ \<Rightarrow> Inl AttributeError)"

text \<open>\<open>generate_greeting(child_name, child_age)\<close>, lines 108-123.\<close>

definition generate_greeting ::
  "pyval \<Rightarrow> heap \<Rightarrow> nat \<Rightarrow> string \<Rightarrow> int \<Rightarrow> py_error + string" where
  "generate_greeting C h rnd child_name child_age =
     bindE (if child_age \<le> 4 then subscript2 h C ''greeting_templates'' ''ages_2_4''
            else if child_age \<le> 8 then subscript2 h C ''greeting_templates'' ''ages_5_8''
            else subscript2 h C ''greeting_templates'' ''ages_9_12'') (\<lambda>templates.
     bindE (random_choice h rnd templates) (\<lambda>template.
     let child_term = ''child'' in
     format_template template child_name child_term))"

section \<open>\<open>create_system_prompt\<close>\<close>

definition nl :: string where
  "nl = [CHR 0x0A]"

text \<open>The first f-string, lines 128-143, once its fields have been evaluated.\<close>

definition prompt_header ::
  "string \<Rightarrow> string \<Rightarrow> string \<Rightarrow> string \<Rightarrow> string \<Rightarrow> string \<Rightarrow> string \<Rightarrow> string" where
  "prompt_header child_name age duration total_seconds level greeting n_phases =
     nl @ ''PERSONALIZED CONVERSATION CONTEXT:'' @ nl
     @ nl
     @ ''Child Information:'' @ nl
     @ ''- Name: '' @ child_name @ nl
     @ ''- Age: '' @ age @ '' years old'' @ nl
     @ ''- Call Duration: '' @ duration @ '' ('' @ total_seconds @ '' seconds)'' @ nl
     @ ''- Language Level: '' @ level @ nl
     @ nl
     @ ''MANDATORY GREETING:'' @ nl
     @ ''Start the conversation with: '' @ [CHR 0x22] @ greeting @ [CHR 0x22] @ nl
     @ nl
     @ ''CONVERSATION STRUCTURE:'' @ nl
     @ ''You must follow this '' @ duration @ '' arc with '' @ n_phases @ '' phases:'' @ nl
     @ nl"

text \<open>\<open>chr(10).join([f'  - {x}' for x in v])\<close>.\<close>

definition bullet_lines :: "(heap \<Rightarrow> pyval \<Rightarrow> string) \<Rightarrow> heap \<Rightarrow> pyval \<Rightarrow> py_error + string" where
  "bullet_lines so h v =
     bindE (py_iter h v) (\<lambda>xs. Inr (py_join nl (map (\<lambda>x. ''  - '' @ py_str so h x) xs)))"

text \<open>\<open>phase['name'].replace('_', ' ').title()\<close>: only a string has \<open>replace\<close>.\<close>

definition humanize :: "pyval \<Rightarrow> py_error + string" where
  "humanize v = (case v of VStr s \<Rightarrow> Inr (title (replace_underscores s)) | _ \<Rightarrow> Inl AttributeError)"

text \<open>The body of the loop over the phases, lines 147-160: the f-string of the phase,
  then the suggested questions when the phase has the key. The fields are evaluated in the
  order they stand in the f-string.\<close>

definition phase_block ::
  "(heap \<Rightarrow> pyval \<Rightarrow> string) \<Rightarrow> heap \<Rightarrow> int \<Rightarrow> pyval \<Rightarrow> py_error + string" where
  "phase_block so h i phase =
     bindE (bindE (subscript h phase ''name'') humanize) (\<lambda>name.
     bindE (subscript h phase ''duration_seconds'') (\<lambda>seconds.
     bindE (subscript h phase ''percentage'') (\<lambda>percentage.
     bindE (bindE (subscript h phase ''goals'') (bullet_lines so h)) (\<lambda>goals.
     bindE (bindE (subscript h phase ''santa_guidelines'') (bullet_lines so h)) (\<lambda>guidelines.
     let block =
           nl @ ''Phase '' @ str_int i @ '': '' @ name
              @ '' ('' @ py_str so h seconds @ ''s - '' @ py_str so h percentage @ ''%)'' @ nl
           @ ''Goals:'' @ nl
           @ goals @ nl
           @ nl
           @ ''Guidelines:'' @ nl
           @ guidelines @ nl
     in
     bindE (py_in_dict h ''suggested_questions'' phase) (\<lambda>has_questions.
       if has_questions then
         bindE (bindE (subscript h phase ''suggested_questions'') (bullet_lines so h)) (\<lambda>questions.
         Inr (block @ nl @ ''Suggested Questions:'' @ nl @ questions @ nl))
       else Inr block))))))"

text \<open>\<open>for i, phase in enumerate(arc['phases'], 1): prompt += ...\<close>\<close>

fun phases_loop ::
  "(heap \<Rightarrow> pyval \<Rightarrow> string) \<Rightarrow> heap \<Rightarrow> int \<Rightarrow> pyval list \<Rightarrow> string \<Rightarrow> py_error + string" where
  "phases_loop so h i [] prompt = Inr prompt"
| "phases_loop so h i (phase # phases) prompt =
     bindE (phase_block so h i phase) (\<lambda>block. phases_loop so h (i + 1) phases (prompt @ block))"

text \<open>The last f-string, lines 163-196, cut at its headings into the blocks it consists of;
  the fields of the first two are evaluated before any text is produced, in this order.\<close>

definition age_adaptation_block ::
  "(heap \<Rightarrow> pyval \<Rightarrow> string) \<Rightarrow> heap \<Rightarrow> int \<Rightarrow> pyval \<Rightarrow> py_error + string" where
  "age_adaptation_block so h child_age arc =
     bindE (subscript2 h arc ''age_adaptation'' ''response_length'') (\<lambda>response_length.
     bindE (subscript2 h arc ''age_adaptation'' ''sentence_complexity'') (\<lambda>complexity.
     bindE (subscript2 h arc ''age_adaptation'' ''energy'') (\<lambda>energy.
     bindE (subscript2 h arc ''age_adaptation'' ''attention_span'') (\<lambda>attention_span.
     Inr (''AGE-SPECIFIC ADAPTATIONS (Age '' @ str_int child_age @ ''):'' @ nl
          @ ''- Response Length: '' @ py_str so h response_length @ nl
          @ ''- Sentence Complexity: '' @ py_str so h complexity @ nl
          @ ''- Energy Level: '' @ py_str so h energy @ nl
          @ ''- Attention Span: '' @ py_str so h attention_span @ nl)))))"

definition timing_block :: "(heap \<Rightarrow> pyval \<Rightarrow> string) \<Rightarrow> heap \<Rightarrow> pyval \<Rightarrow> py_error + string" where
  "timing_block so h arc =
     bindE (subscript2 h arc ''timing'' ''average_response_length_seconds'') (\<lambda>average.
     bindE (subscript2 h arc ''timing'' ''max_response_length_seconds'') (\<lambda>maximum.
     bindE (subscript2 h arc ''timing'' ''pause_between_responses_seconds'') (\<lambda>pause.
     Inr (''TIMING GUIDELINES:'' @ nl
          @ ''- Average response: '' @ py_str so h average @ '' seconds'' @ nl
          @ ''- Max response: '' @ py_str so h maximum @ '' seconds'' @ nl
          @ ''- Pause between responses: '' @ py_str so h pause @ '' seconds'' @ nl))))"

definition conversation_rules :: "string \<Rightarrow> string" where
  "conversation_rules child_name =
     ''CONVERSATION RULES:'' @ nl
     @ ''1. Use '' @ child_name @ [CHR 0x27] @ ''s name naturally 2-3 times per minute'' @ nl
     @ ''2. Keep responses within time limits for your age group'' @ nl
     @ ''3. Listen actively - reference what the child says'' @ nl
     @ ''4. Never promise specific gifts - use '' @ [CHR 0x22] @ ''I'' @ [CHR 0x27]
       @ ''ll see what I can do'' @ [CHR 0x22] @ '' or '' @ [CHR 0x22] @ ''I'' @ [CHR 0x27]
       @ ''ll talk to my elves'' @ [CHR 0x22] @ nl
     @ ''5. Stay in character as Santa Claus at all times'' @ nl
     @ ''6. If child shows objects, acknowledge and comment on them'' @ nl
     @ ''7. Keep the magic of Christmas alive'' @ nl
     @ ''8. Be warm, encouraging, and kind'' @ nl
     @ ''9. Follow the phase structure but allow natural conversation flow'' @ nl
     @ ''10. If running long, gracefully transition to closing phase'' @ nl"

definition quality_indicators :: "string \<Rightarrow> string" where
  "quality_indicators child_name =
     ''QUALITY INDICATORS:'' @ nl
     @ ''- Child is engaged and responding'' @ nl
     @ ''- Conversation feels natural, not scripted'' @ nl
     @ ''- Child seems comfortable and happy'' @ nl
     @ ''- Name usage feels natural, not forced'' @ nl
     @ ''- Transitions between phases are smooth'' @ nl
     @ nl
     @ ''Remember: You are Santa Claus. Be magical, kind, and create a memorable experience for ''
     @ child_name @ ''!'' @ nl"

text \<open>\<open>create_system_prompt(child_name, child_age, duration, greeting, arc)\<close>,
  lines 125-198.\<close>

definition create_system_prompt ::
  "(heap \<Rightarrow> pyval \<Rightarrow> string) \<Rightarrow> heap \<Rightarrow> string \<Rightarrow> int \<Rightarrow> string \<Rightarrow> string \<Rightarrow> pyval
     \<Rightarrow> py_error + string" where
  "create_system_prompt so h child_name child_age duration greeting arc =
     bindE (subscript h arc ''total_duration_seconds'') (\<lambda>total_seconds.
     bindE (subscript2 h arc ''age_adaptation'' ''language_level'') (\<lambda>level.
     bindE (bindE (subscript h arc ''phases'') (py_len h)) (\<lambda>n_phases.
     let prompt = prompt_header child_name (str_int child_age) duration (py_str so h total_seconds)
                    (py_str so h level) greeting (str_int n_phases) in
     bindE (bindE (subscript h arc ''phases'') (py_iter h)) (\<lambda>phases.
     bindE (phases_loop so h 1 phases prompt) (\<lambda>prompt.
     bindE (age_adaptation_block so h child_age arc) (\<lambda>adaptations.
     bindE (timing_block so h arc) (\<lambda>timing.
     Inr (prompt @ nl @ nl
          @ adaptations @ nl
          @ timing @ nl
          @ conversation_rules child_name @ nl
          @ quality_indicators child_name))))))))"

section \<open>Request models, the analytics store and the provider\<close>

text \<open>
  The pydantic models of lines 55-87. A request body is taken with fields of the declared
  types; the constraints of the \<open>Field\<close> declarations and of the validator are the
  function \<open>validate_StartCallRequest\<close>, which returns the fields that fail, in
  declaration order (pydantic reports all of them). The length of a name is its number of
  characters.
\<close>

record StartCallRequest =
  rq_child_name :: string
  rq_child_age :: int
  rq_call_duration :: string
  rq_parent_email :: "string option"

definition validate_duration :: "string \<Rightarrow> bool" where
  "validate_duration v = (v \<in> set [''5min'', ''10min''])"

definition validate_StartCallRequest :: "StartCallRequest \<Rightarrow> string list" where
  "validate_StartCallRequest r =
     (if 1 \<le> length (rq_child_name r) \<and> length (rq_child_name r) \<le> 50 then [] else [''child_name''])
     @ (if 2 \<le> rq_child_age r \<and> rq_child_age r \<le> 12 then [] else [''child_age''])
     @ (if validate_duration (rq_call_duration r) then [] else [''call_duration''])"

record CallMetadata =
  md_child_name :: string
  md_child_age :: int
  md_call_duration :: string
  md_greeting :: string
  md_arc_name :: pyval
  md_phases :: int

record StartCallResponse =
  rs_conversation_id :: string
  rs_conversation_url :: string
  rs_expires_at :: string
  rs_call_metadata :: CallMetadata
  rs_estimated_end_time :: string

record CallCompletionRequest =
  cc_conversation_id :: string
  cc_actual_duration_seconds :: int
  cc_parent_rating :: "int option"
  cc_parent_feedback :: "string option"
  cc_child_enjoyed :: "bool option"

definition validate_CallCompletionRequest :: "CallCompletionRequest \<Rightarrow> string list" where
  "validate_CallCompletionRequest r =
     (case cc_parent_rating r of
        None \<Rightarrow> []
      | Some n \<Rightarrow> if 1 \<le> n \<and> n \<le> 5 then [] else [''parent_rating''])"

text \<open>
  The entries of \<open>analytics_store\<close>. Only \<open>track_call_started\<close> and
  \<open>track_call_completed\<close> append to it, so an entry is one of two dicts with fixed keys,
  told apart by \<open>'event'\<close>: a tagged union. A timestamp is the UTC time in seconds;
  \<open>isoformat\<close> and \<open>fromisoformat\<close> are inverse to each other and are left out.
\<close>

datatype analytics_event =
    Call_started (timestamp: int) (conversation_id: string) (child_age: int)
      (call_duration: string) (parent_email: "string option")
  | Call_completed (timestamp: int) (conversation_id: string) (actual_duration_seconds: int)
      (parent_rating: "int option") (parent_feedback: "string option")
      (child_enjoyed: "bool option")

text \<open>
  What the service fails with: an \<open>HTTPException\<close> it raises itself (status code and
  detail), a request body that fails validation (the framework answers it with status 422
  before the handler runs), or a Python exception nothing catches (the framework answers
  it with status 500).
\<close>

datatype failure =
    HTTPException int string
  | RequestValidationError "string list"
  | Unhandled py_error

fun status_code :: "failure \<Rightarrow> int" where
  "status_code (HTTPException code detail) = code"
| "status_code (RequestValidationError errs) = 422"
| "status_code (Unhandled e) = 500"

text \<open>
  The provider. One \<open>client.post\<close> is an \<open>outbound_call\<close>; the provider answers it with a
  timeout (\<open>httpx.TimeoutException\<close>), another transport failure (\<open>httpx.RequestError\<close>,
  with its message) or a response: status code, body text, and the body as a JSON object
  with string fields when it is one (\<open>response.json()\<close> raises otherwise).
\<close>

record tavus_request =
  persona_id :: string
  conversation_name :: string
  conversational_context :: string
  max_call_duration :: int
  enable_recording :: bool
  participant_left_timeout :: int
  custom_metadata :: StartCallRequest

record outbound_call =
  post_url :: string
  x_api_key :: string
  post_json :: tavus_request
  post_timeout :: int

datatype provider_outcome =
    TimeoutException
  | RequestError string
  | Response int string "(string \<times> string) list option"

text \<open>The module's globals (lines 33-35, 48, 51) and what the process takes from outside:
  the random source, the printed form of floats and containers, the clock.\<close>

record config =
  TAVUS_API_KEY :: "string option"
  TAVUS_PERSONA_ID :: "string option"
  CONVERSATION_ARCS :: pyval

record externals =
  ext_rnd :: nat
  ext_str :: "heap \<Rightarrow> pyval \<Rightarrow> string"
  ext_utcnow :: int
  ext_isoformat :: "int \<Rightarrow> string"

record server_state =
  objects :: heap
  analytics_store :: "analytics_event list"
  outbound :: "outbound_call list"

definition TAVUS_BASE_URL :: string where
  "TAVUS_BASE_URL = ''https://tavusapi.com/v2''"

text \<open>\<open>not v\<close> for an environment variable: true when it is unset or empty.\<close>

definition py_not :: "string option \<Rightarrow> bool" where
  "py_not v = (case v of None \<Rightarrow> True | Some s \<Rightarrow> s = [])"

section \<open>\<open>track_call_started\<close>, \<open>track_call_completed\<close>\<close>

definition track_call_started ::
  "int \<Rightarrow> string \<Rightarrow> int \<Rightarrow> string \<Rightarrow> string option \<Rightarrow> server_state \<Rightarrow> server_state" where
  "track_call_started now cid age duration email st =
     st\<lparr>analytics_store := analytics_store st @ [Call_started now cid age duration email]\<rparr>"

definition track_call_completed :: "int \<Rightarrow> CallCompletionRequest \<Rightarrow> server_state \<Rightarrow> server_state" where
  "track_call_completed now r st =
     st\<lparr>analytics_store := analytics_store st @
          [Call_completed now (cc_conversation_id r) (cc_actual_duration_seconds r)
             (cc_parent_rating r) (cc_parent_feedback r) (cc_child_enjoyed r)]\<rparr>"

section \<open>\<open>start_santa_call\<close>\<close>

text \<open>
  The handler, lines 271-388, on a request that has passed validation. It returns the
  state it leaves and the response or the failure. The background task runs after the
  response has been produced; its effect is part of the state returned.
\<close>

definition start_santa_call ::
  "config \<Rightarrow> externals \<Rightarrow> (outbound_call \<Rightarrow> provider_outcome) \<Rightarrow> server_state \<Rightarrow> StartCallRequest
     \<Rightarrow> server_state \<times> (failure + StartCallResponse)" where
  "start_santa_call cfg ext provider st request =
     (if py_not (TAVUS_API_KEY cfg) \<or> py_not (TAVUS_PERSONA_ID cfg) then
        (st, Inl (HTTPException 500
           ''Tavus API credentials not configured. Please set TAVUS_API_KEY and TAVUS_PERSONA_ID environment variables.''))
      else
     (case generate_greeting (CONVERSATION_ARCS cfg) (objects st) (ext_rnd ext)
             (rq_child_name request) (rq_child_age request) of
        Inl e \<Rightarrow> (st, Inl (Unhandled e))
      | Inr greeting \<Rightarrow>
     (case load_conversation_arc (CONVERSATION_ARCS cfg) (objects st)
             (rq_call_duration request) (rq_child_age request) of
        (h, Inl e) \<Rightarrow> (st\<lparr>objects := h\<rparr>, Inl (Unhandled e))
      | (h, Inr conversation_arc) \<Rightarrow>
     (case create_system_prompt (ext_str ext) h (rq_child_name request) (rq_child_age request)
             (rq_call_duration request) greeting conversation_arc of
        Inl e \<Rightarrow> (st\<lparr>objects := h\<rparr>, Inl (Unhandled e))
      | Inr system_prompt \<Rightarrow>
     (let max_duration = (if rq_call_duration request = ''5min'' then 300 else 600);
          tavus_request = \<lparr>
            persona_id = the (TAVUS_PERSONA_ID cfg),
            conversation_name = ''Santa call with '' @ rq_child_name request,
            conversational_context = system_prompt,
            max_call_duration = max_duration,
            enable_recording = False,
            participant_left_timeout = 60,
            custom_metadata = request\<rparr>;
          call = \<lparr>
            post_url = TAVUS_BASE_URL @ ''/conversations'',
            x_api_key = the (TAVUS_API_KEY cfg),
            post_json = tavus_request,
            post_timeout = 30\<rparr>;
          st1 = st\<lparr>objects := h, outbound := outbound st @ [call]\<rparr>
      in
     (case provider call of
        TimeoutException \<Rightarrow>
          (st1, Inl (HTTPException 504 ''Timeout connecting to Tavus API. Please try again.''))
      | RequestError msg \<Rightarrow>
          (st1, Inl (HTTPException 503 (''Error connecting to Tavus API: '' @ msg)))
      | Response code body json \<Rightarrow>
          if code \<noteq> 200 then (st1, Inl (HTTPException code (''Tavus API error: '' @ body)))
          else
     (case json of
        None \<Rightarrow> (st1, Inl (Unhandled ValueError))
      | Some tavus_data \<Rightarrow>
     (let estimated_end = ext_utcnow ext + max_duration in
     (case map_of tavus_data ''conversation_id'' of
        None \<Rightarrow> (st1, Inl (Unhandled (KeyError ''conversation_id'')))
      | Some cid \<Rightarrow>
     (case map_of tavus_data ''conversation_url'' of
        None \<Rightarrow> (st1, Inl (Unhandled (KeyError ''conversation_url'')))
      | Some url \<Rightarrow>
     (case subscript h conversation_arc ''name'' of
        Inl e \<Rightarrow> (st1, Inl (Unhandled e))
      | Inr arc_name \<Rightarrow>
     (case bindE (subscript h conversation_arc ''phases'') (py_len h) of
        Inl e \<Rightarrow> (st1, Inl (Unhandled e))
      | Inr n_phases \<Rightarrow>
     (let response_data = \<lparr>
            rs_conversation_id = cid,
            rs_conversation_url = url,
            rs_expires_at =
              (case map_of tavus_data ''expires_at'' of
                 None \<Rightarrow> ext_isoformat ext estimated_end
               | Some e \<Rightarrow> e),
            rs_call_metadata = \<lparr>
              md_child_name = rq_child_name request,
              md_child_age = rq_child_age request,
              md_call_duration = rq_call_duration request,
              md_greeting = greeting,
              md_arc_name = arc_name,
              md_phases = n_phases\<rparr>,
            rs_estimated_end_time = ext_isoformat ext estimated_end\<rparr>
      in (track_call_started (ext_utcnow ext) cid (rq_child_age request)
            (rq_call_duration request) (rq_parent_email request) st1,
          Inr response_data))))))))))))))"

text \<open>The route \<open>POST /api/santa/start-call\<close>: the body is validated against
  \<open>StartCallRequest\<close> first, and the handler runs only on a body that passes.\<close>

definition start_call_endpoint ::
  "config \<Rightarrow> externals \<Rightarrow> (outbound_call \<Rightarrow> provider_outcome) \<Rightarrow> server_state \<Rightarrow> StartCallRequest
     \<Rightarrow> server_state \<times> (failure + StartCallResponse)" where
  "start_call_endpoint cfg ext provider st body =
     (case validate_StartCallRequest body of
        [] \<Rightarrow> start_santa_call cfg ext provider st body
      | f # fs \<Rightarrow> (st, Inl (RequestValidationError (f # fs))))"

text \<open>The route \<open>POST /api/santa/complete-call\<close>, lines 390-421; the acknowledgement
  carries the conversation id.\<close>

definition complete_call_endpoint ::
  "externals \<Rightarrow> server_state \<Rightarrow> CallCompletionRequest \<Rightarrow> server_state \<times> (failure + string)" where
  "complete_call_endpoint ext st body =
     (case validate_CallCompletionRequest body of
        [] \<Rightarrow> (track_call_completed (ext_utcnow ext) body st, Inr (cc_conversation_id body))
      | f # fs \<Rightarrow> (st, Inl (RequestValidationError (f # fs))))"

section \<open>\<open>get_analytics\<close>\<close>

text \<open>
  Python floats are modelled by the rational numbers they stand for: \<open>a / b\<close> is the
  exact quotient, and \<open>round(x, n)\<close> is the multiple of \<open>10\<^sup>-\<^sup>n\<close> nearest to \<open>x\<close>, the
  even one when \<open>x\<close> lies exactly between two. The error of binary floating point is not
  modelled: where the exact quotient lies exactly between two such multiples, CPython
  rounds the double nearest to the quotient, which may fall on either side.
\<close>

definition round_half_even :: "rat \<Rightarrow> int" where
  "round_half_even q =
     (let f = \<lfloor>q\<rfloor>; d = q - of_int f in
      if d < 1 / 2 then f
      else if 1 / 2 < d then f + 1
      else if even f then f else f + 1)"

definition py_round :: "rat \<Rightarrow> nat \<Rightarrow> rat" where
  "py_round x ndigits = of_int (round_half_even (x * 10 ^ ndigits)) / 10 ^ ndigits"

record AnalyticsResponse =
  total_calls :: int
  calls_today :: int
  average_duration_seconds :: rat
  average_rating :: rat
  calls_by_duration :: "(string \<times> int) list"
  calls_by_age :: "(string \<times> int) list"

text \<open>\<open>x['event'] == 'call_started'\<close>, \<open>x['event'] == 'call_completed'\<close>.\<close>

fun is_call_started :: "analytics_event \<Rightarrow> bool" where
  "is_call_started (Call_started t c a d e) = True"
| "is_call_started (Call_completed t c s r f e) = False"

fun is_call_completed :: "analytics_event \<Rightarrow> bool" where
  "is_call_completed (Call_started t c a d e) = False"
| "is_call_completed (Call_completed t c s r f e) = True"

text \<open>\<open>datetime.fromisoformat(x['timestamp']).date()\<close>: the day of a time in seconds.\<close>

definition date :: "int \<Rightarrow> int" where
  "date t = t div 86400"

text \<open>\<open>if x.get('parent_rating')\<close>: a rating that is absent (\<open>None\<close>) or zero is false.\<close>

definition rating_truthy :: "analytics_event \<Rightarrow> bool" where
  "rating_truthy x = (case parent_rating x of None \<Rightarrow> False | Some r \<Rightarrow> r \<noteq> 0)"

text \<open>\<open>d[k] = d.get(k, 0) + 1\<close>\<close>

definition count_key :: "string \<Rightarrow> (string \<times> int) list \<Rightarrow> (string \<times> int) list" where
  "count_key k d = AList.update k ((case map_of d k of None \<Rightarrow> 0 | Some n \<Rightarrow> n) + 1) d"

fun count_by :: "(analytics_event \<Rightarrow> string) \<Rightarrow> analytics_event list \<Rightarrow> (string \<times> int) list
    \<Rightarrow> (string \<times> int) list" where
  "count_by key [] d = d"
| "count_by key (call # calls) d = count_by key calls (count_key (key call) d)"

text \<open>\<open>get_analytics()\<close>, lines 424-490, on the store and the current time.\<close>

definition get_analytics :: "int \<Rightarrow> analytics_event list \<Rightarrow> AnalyticsResponse" where
  "get_analytics now store =
     (if store = [] then
        \<lparr>total_calls = 0, calls_today = 0, average_duration_seconds = 0, average_rating = 0,
         calls_by_duration = [], calls_by_age = []\<rparr>
      else
        let started_calls = filter is_call_started store;
            completed_calls = filter is_call_completed store;
            today = date now;
            avg_duration =
              (if completed_calls \<noteq> [] then
                 of_int (sum_list (map actual_duration_seconds completed_calls))
                   / of_nat (length completed_calls)
               else 0);
            ratings = map (\<lambda>x. the (parent_rating x)) (filter rating_truthy completed_calls);
            avg_rating =
              (if ratings \<noteq> [] then of_int (sum_list ratings) / of_nat (length ratings) else 0)
        in
        \<lparr>total_calls = int (length started_calls),
         calls_today = int (length (filter (\<lambda>x. date (timestamp x) = today) started_calls)),
         average_duration_seconds = py_round avg_duration 1,
         average_rating = py_round avg_rating 2,
         calls_by_duration = count_by call_duration started_calls [],
         calls_by_age = count_by (\<lambda>call. str_int (child_age call)) started_calls []\<rparr>)"

section \<open>Well-formed stores, and the terms of the specification\<close>















definition started_calls_where :: "(analytics_event \<Rightarrow> bool) \<Rightarrow> analytics_event list \<Rightarrow> nat" where
  "started_calls_where P store = length (filter (\<lambda>x. is_call_started x \<and> P x) store)"

definition reported :: "nat \<Rightarrow> int option" where
  "reported n = (if n = 0 then None else Some (int n))"

text \<open>Reading a decimal numeral back.\<close>

definition nat_of_str :: "string \<Rightarrow> nat" where
  "nat_of_str s = foldl (\<lambda>a c. 10 * a + (of_char c - 48)) 0 s"

section \<open>A small catalog\<close>

text \<open>
  A catalog of the shape \<open>conversation-arcs.yaml\<close> has, as \<open>yaml.safe_load\<close> leaves it in
  the store: one arc of two phases, three age adaptations, three template lists and one
  timing guideline. The theorems below are instantiated on it.
\<close>

definition example_objects :: heap where
  "example_objects =
     [ODict [(''arcs'', VRef 1), (''age_adaptations'', VRef 2),
             (''greeting_templates'', VRef 3), (''timing_guidelines'', VRef 4)],
      ODict [(''5min'', VRef 5)],
      ODict [(''ages_2_4'', VRef 6), (''ages_5_8'', VRef 7), (''ages_9_12'', VRef 8)],
      ODict [(''ages_2_4'', VRef 9), (''ages_5_8'', VRef 10), (''ages_9_12'', VRef 11)],
      ODict [(''5min'', VRef 12)],
      ODict [(''name'', VStr ''Quick Visit''), (''total_duration_seconds'', VInt 300),
             (''phases'', VRef 13)],
      ODict [(''language_level'', VStr ''very simple''), (''response_length'', VStr ''1 sentence''),
             (''sentence_complexity'', VStr ''simple''), (''energy'', VStr ''high''),
             (''attention_span'', VStr ''short'')],
      ODict [(''language_level'', VStr ''simple''), (''response_length'', VStr ''2 sentences''),
             (''sentence_complexity'', VStr ''moderate''), (''energy'', VStr ''medium''),
             (''attention_span'', VStr ''medium'')],
      ODict [(''language_level'', VStr ''natural''), (''response_length'', VStr ''3 sentences''),
             (''sentence_complexity'', VStr ''full''), (''energy'', VStr ''calm''),
             (''attention_span'', VStr ''long'')],
      OList [VStr ''Ho ho ho, {child_name}!''],
      OList [VStr ''Hello {child_name}, what a good {child} you are!'',
             VStr ''Merry Christmas, {child_name}!''],
      OList [VStr ''Hi {child_name}.''],
      ODict [(''average_response_length_seconds'', VInt 8),
             (''max_response_length_seconds'', VInt 15),
             (''pause_between_responses_seconds'', VInt 2)],
      OList [VRef 14, VRef 15],
      ODict [(''name'', VStr ''warm_greeting''), (''duration_seconds'', VInt 60),
             (''percentage'', VInt 20), (''goals'', VRef 16), (''santa_guidelines'', VRef 17)],
      ODict [(''name'', VStr ''wish_list''), (''duration_seconds'', VInt 240),
             (''percentage'', VInt 80), (''goals'', VRef 18), (''santa_guidelines'', VRef 19),
             (''suggested_questions'', VRef 20)],
      OList [VStr ''Welcome the child''],
      OList [VStr ''Be jolly''],
      OList [VStr ''Hear the wishes'', VStr ''Say goodbye''],
      OList [VStr ''Never promise gifts''],
      OList [VStr ''What would you like?'']]"

definition example_catalog :: pyval where
  "example_catalog = VRef 0"



text \<open>A configured service on the small catalog, before any request, and a valid request.
  The example clock stands at 1000 seconds and prints a time as its number of seconds.\<close>

definition example_config :: config where
  "example_config =
     \<lparr>TAVUS_API_KEY = Some ''key'', TAVUS_PERSONA_ID = Some ''persona'',
      CONVERSATION_ARCS = example_catalog\<rparr>"

definition example_externals :: externals where
  "example_externals =
     \<lparr>ext_rnd = 0, ext_str = (\<lambda>h v. []), ext_utcnow = 1000, ext_isoformat = str_int\<rparr>"

definition example_state :: server_state where
  "example_state = \<lparr>objects = example_objects, analytics_store = [], outbound = []\<rparr>"

definition example_request :: StartCallRequest where
  "example_request =
     \<lparr>rq_child_name = ''Mia'', rq_child_age = 4, rq_call_duration = ''5min'',
      rq_parent_email = None\<rparr>"

section \<open>Sequencing of failures\<close>



section \<open>The arc builder: frame, shallow copy, age bands\<close>

lemma deref_append: "deref h a = Some obj \<Longrightarrow> deref (h @ hs) a = Some obj"
  by (auto simp: deref_def nth_append split: if_splits)

lemma subscript_append: "subscript h v k = Inr x \<Longrightarrow> subscript (h @ hs) v k = Inr x"
  by (auto simp: subscript_def deref_def nth_append split: pyval.splits if_splits option.splits pyobj.splits)

lemma subscript2_append: "subscript2 h v k1 k2 = Inr x \<Longrightarrow> subscript2 (h @ hs) v k1 k2 = Inr x"
  by (auto simp: subscript2_def bindE_def subscript_append split: sum.splits)

lemma setitem_new:
  "setitem (h @ [obj]) (VRef (length h)) k x = Inr h2 \<Longrightarrow>
   \<exists>kvs. obj = ODict kvs \<and> h2 = h @ [ODict (AList.update k x kvs)]"
  by (auto simp: setitem_def deref_def split: pyobj.splits)

lemma py_copy_Inr:
  "py_copy h v = (h1, Inr w) \<Longrightarrow>
   \<exists>a obj. v = VRef a \<and> deref h a = Some obj \<and> h1 = h @ [obj] \<and> w = VRef (length h)"
  by (auto simp: py_copy_def split: pyval.splits option.splits)

lemma py_copy_Inl: "py_copy h v = (h1, Inl e) \<Longrightarrow> h1 = h"
  by (auto simp: py_copy_def split: pyval.splits option.splits)

lemma load_conversation_arc_extends:
  "\<exists>hs. fst (load_conversation_arc C h duration age) = h @ hs"
  unfolding load_conversation_arc_def
  by (auto split: sum.splits prod.splits dest!: py_copy_Inr py_copy_Inl setitem_new)

lemma load_calls_extends: "\<exists>hs. load_calls C h calls = h @ hs"
proof (induction calls arbitrary: h)
  case Nil
  then show ?case by simp
next
  case (Cons c calls)
  obtain duration age where c: "c = (duration, age)" by (cases c)
  obtain hs where 1: "fst (load_conversation_arc C h duration age) = h @ hs"
    using load_conversation_arc_extends by blast
  obtain hs' where "load_calls C (h @ hs) calls = (h @ hs) @ hs'"
    using Cons.IH by blast
  with 1 c show ?case by simp
qed







text \<open>
  \<^bold>\<open>C3.\<close> Calling \<open>load_conversation_arc\<close> any number of times, for any durations and
  ages, never changes the Arc the catalog stores for a duration: after the calls the
  catalog still gives the same object for that duration, the object has the contents it
  had, and so has every object that existed before the calls (the store has only grown at
  its end).
\<close>

theorem catalog_arc_unchanged:
  assumes "subscript2 h C ''arcs'' duration = Inr (VRef a)" and "deref h a = Some arc"
  shows "subscript2 (load_calls C h calls) C ''arcs'' duration = Inr (VRef a)
       \<and> deref (load_calls C h calls) a = Some arc
       \<and> take (length h) (load_calls C h calls) = h"
proof -
  obtain hs where "load_calls C h calls = h @ hs"
    using load_calls_extends by blast
  with assms show ?thesis
    by (simp add: subscript2_append deref_append)
qed

theorem catalog_arc_unchanged_witness:
  "subscript2 example_objects example_catalog ''arcs'' ''5min'' = Inr (VRef 5)
   \<and> deref example_objects 5 = Some (example_objects ! 5)
   \<and> subscript2 (load_calls example_catalog example_objects [(''5min'', 4), (''5min'', 9)])
         example_catalog ''arcs'' ''5min'' = Inr (VRef 5)
   \<and> deref (load_calls example_catalog example_objects [(''5min'', 4), (''5min'', 9)]) 5
       = Some (example_objects ! 5)
   \<and> take (length example_objects)
         (load_calls example_catalog example_objects [(''5min'', 4), (''5min'', 9)])
       = example_objects"
proof -
  have 1: "subscript2 example_objects example_catalog ''arcs'' ''5min'' = Inr (VRef 5)"
    by (simp add: example_catalog_def example_objects_def subscript2_def subscript_def
        bindE_def deref_def)
  have 2: "deref example_objects 5 = Some (example_objects ! 5)"
    by (simp add: deref_def example_objects_def)
  show ?thesis
    using 1 2 catalog_arc_unchanged [OF 1 2, of "[(''5min'', 4), (''5min'', 9)]"] by simp
qed





section \<open>The greeting\<close>












section \<open>The system prompt\<close>





section \<open>The call orchestrator\<close>

lemma validate_nonempty:
  "rq_call_duration body \<notin> {''5min'', ''10min''} \<or> rq_child_age body < 2 \<or> 12 < rq_child_age body
     \<or> length (rq_child_name body) < 1 \<or> 50 < length (rq_child_name body)
   \<Longrightarrow> validate_StartCallRequest body \<noteq> []"
  by (auto simp: validate_StartCallRequest_def validate_duration_def)

text \<open>
  \<^bold>\<open>C4.\<close> A start-call request whose duration is neither \<open>5min\<close> nor \<open>10min\<close>, whose
  age is outside 2-12 or whose name is shorter than 1 or longer than 50 characters is
  rejected with a validation error of a client status (422), the handler is not run, and
  the state is left as it was: nothing is sent to the provider.
\<close>

theorem invalid_request_rejected:
  assumes "rq_call_duration body \<notin> {''5min'', ''10min''} \<or> rq_child_age body < 2
           \<or> 12 < rq_child_age body
           \<or> length (rq_child_name body) < 1 \<or> 50 < length (rq_child_name body)"
  shows "\<exists>errs. start_call_endpoint cfg ext provider st body
                 = (st, Inl (RequestValidationError errs))
              \<and> 400 \<le> status_code (RequestValidationError errs)
              \<and> status_code (RequestValidationError errs) < 500
              \<and> outbound (fst (start_call_endpoint cfg ext provider st body)) = outbound st"
proof -
  from validate_nonempty [OF assms] obtain f fs where "validate_StartCallRequest body = f # fs"
    by (cases "validate_StartCallRequest body") auto
  then show ?thesis
    by (simp add: start_call_endpoint_def)
qed

theorem invalid_request_rejected_witness:
  "start_call_endpoint example_config example_externals (\<lambda>call. TimeoutException) example_state
      (example_request\<lparr>rq_call_duration := ''7min''\<rparr>)
     = (example_state, Inl (RequestValidationError [''call_duration'']))
   \<and> (\<exists>errs. start_call_endpoint example_config example_externals (\<lambda>call. TimeoutException)
                 example_state (example_request\<lparr>rq_call_duration := ''7min''\<rparr>)
                 = (example_state, Inl (RequestValidationError errs))
              \<and> 400 \<le> status_code (RequestValidationError errs)
              \<and> status_code (RequestValidationError errs) < 500
              \<and> outbound (fst (start_call_endpoint example_config example_externals
                    (\<lambda>call. TimeoutException) example_state
                    (example_request\<lparr>rq_call_duration := ''7min''\<rparr>)))
                  = outbound example_state)"
proof -
  have bad: "rq_call_duration (example_request\<lparr>rq_call_duration := ''7min''\<rparr>) \<notin> {''5min'', ''10min''}
           \<or> rq_child_age (example_request\<lparr>rq_call_duration := ''7min''\<rparr>) < 2
           \<or> 12 < rq_child_age (example_request\<lparr>rq_call_duration := ''7min''\<rparr>)
           \<or> length (rq_child_name (example_request\<lparr>rq_call_duration := ''7min''\<rparr>)) < 1
           \<or> 50 < length (rq_child_name (example_request\<lparr>rq_call_duration := ''7min''\<rparr>))"
    by simp
  have "start_call_endpoint example_config example_externals (\<lambda>call. TimeoutException) example_state
      (example_request\<lparr>rq_call_duration := ''7min''\<rparr>)
     = (example_state, Inl (RequestValidationError [''call_duration'']))"
    by (simp add: start_call_endpoint_def validate_StartCallRequest_def validate_duration_def
        example_request_def)
  then show ?thesis
    using invalid_request_rejected [OF bad, of example_config example_externals
        "\<lambda>call. TimeoutException" example_state]
    by simp
qed

text \<open>
  \<^bold>\<open>C5.\<close> A valid start-call request to a service on which the API key or the persona id
  is unset (or empty) fails with an \<open>HTTPException\<close> of status 500, which is not the status
  of a validation failure, and nothing is sent to the provider.
\<close>

theorem unset_credentials_configuration_error:
  assumes "validate_StartCallRequest body = []"
    and "py_not (TAVUS_API_KEY cfg) \<or> py_not (TAVUS_PERSONA_ID cfg)"
  shows "\<exists>detail. start_call_endpoint cfg ext provider st body
                   = (st, Inl (HTTPException 500 detail))
              \<and> status_code (HTTPException 500 detail) = 500
              \<and> (\<forall>errs. status_code (HTTPException 500 detail)
                          \<noteq> status_code (RequestValidationError errs))
              \<and> outbound (fst (start_call_endpoint cfg ext provider st body)) = outbound st"
  using assms by (auto simp: start_call_endpoint_def start_santa_call_def)

theorem unset_credentials_configuration_error_witness:
  "validate_StartCallRequest example_request = []
   \<and> py_not (TAVUS_API_KEY (example_config\<lparr>TAVUS_API_KEY := None\<rparr>))
   \<and> (\<exists>detail. start_call_endpoint (example_config\<lparr>TAVUS_API_KEY := None\<rparr>) example_externals
                   (\<lambda>call. TimeoutException) example_state example_request
                   = (example_state, Inl (HTTPException 500 detail))
              \<and> status_code (HTTPException 500 detail) = 500
              \<and> (\<forall>errs. status_code (HTTPException 500 detail)
                          \<noteq> status_code (RequestValidationError errs))
              \<and> outbound (fst (start_call_endpoint (example_config\<lparr>TAVUS_API_KEY := None\<rparr>)
                    example_externals (\<lambda>call. TimeoutException) example_state example_request))
                  = outbound example_state)"
proof -
  have v: "validate_StartCallRequest example_request = []"
    by (simp add: validate_StartCallRequest_def validate_duration_def example_request_def)
  have n: "py_not (TAVUS_API_KEY (example_config\<lparr>TAVUS_API_KEY := None\<rparr>))"
    by (simp add: py_not_def)
  from n have "py_not (TAVUS_API_KEY (example_config\<lparr>TAVUS_API_KEY := None\<rparr>))
             \<or> py_not (TAVUS_PERSONA_ID (example_config\<lparr>TAVUS_API_KEY := None\<rparr>))"
    by simp
  from unset_credentials_configuration_error [OF v this] v n show ?thesis
    by blast
qed







section \<open>The analytics summary\<close>

lemma digit_char_val: "d < 10 \<Longrightarrow> (of_char (digit_char d) :: nat) = 48 + d"
  by (simp add: digit_char_def)

lemma nat_of_str_snoc: "nat_of_str (s @ [c]) = 10 * nat_of_str s + (of_char c - 48)"
  by (simp add: nat_of_str_def)

lemma nat_of_str_str_nat: "nat_of_str (str_nat n) = n"
proof (induction n rule: str_nat.induct)
  case (1 n)
  show ?case
  proof (cases "n < 10")
    case True
    then show ?thesis
      by (subst str_nat.simps) (simp add: nat_of_str_def digit_char_val)
  next
    case False
    then have "nat_of_str (str_nat n) = 10 * nat_of_str (str_nat (n div 10)) + (of_char (digit_char (n mod 10)) - 48)"
      by (subst str_nat.simps) (simp add: nat_of_str_snoc)
    also have "\<dots> = 10 * (n div 10) + n mod 10"
      using False "1.IH" by (simp add: digit_char_val)
    finally show ?thesis by simp
  qed
qed

lemma str_nat_inj: "str_nat m = str_nat n \<Longrightarrow> m = n"
  by (metis nat_of_str_str_nat)

lemma str_nat_digits: "c \<in> set (str_nat n) \<Longrightarrow> is_digit c"
proof (induction n rule: str_nat.induct)
  case (1 n)
  show ?case
  proof (cases "n < 10")
    case True
    with "1.prems" show ?thesis
      by (subst (asm) str_nat.simps) (simp add: is_digit_def digit_char_val)
  next
    case False
    with "1.prems" have "c \<in> set (str_nat (n div 10)) \<or> c = digit_char (n mod 10)"
      by (subst (asm) str_nat.simps) auto
    with False "1.IH" show ?thesis
      by (auto simp: is_digit_def digit_char_val)
  qed
qed

lemma str_nat_no_minus: "CHR ''-'' # s \<noteq> str_nat n"
proof
  assume "CHR ''-'' # s = str_nat n"
  then have "CHR ''-'' \<in> set (str_nat n)"
    by (metis list.set_intros(1))
  then have "is_digit CHR ''-''"
    by (rule str_nat_digits)
  then show False
    by (simp add: is_digit_def)
qed

lemma str_int_inj: "str_int i = str_int j \<Longrightarrow> i = j"
proof -
  assume e: "str_int i = str_int j"
  show "i = j"
  proof (cases "i < 0")
    case True
    show ?thesis
    proof (cases "j < 0")
      case j: True
      with True e have "str_nat (nat (- i)) = str_nat (nat (- j))"
        by (simp add: str_int_def)
      then have "nat (- i) = nat (- j)" by (rule str_nat_inj)
      with True j show ?thesis by simp
    next
      case False
      with True e have "CHR ''-'' # str_nat (nat (- i)) = str_nat (nat j)"
        by (simp add: str_int_def)
      with str_nat_no_minus show ?thesis by blast
    qed
  next
    case False
    show ?thesis
    proof (cases "j < 0")
      case True
      with False e have "CHR ''-'' # str_nat (nat (- j)) = str_nat (nat i)"
        by (simp add: str_int_def)
      with str_nat_no_minus show ?thesis by blast
    next
      case j: False
      with False e have "str_nat (nat i) = str_nat (nat j)"
        by (simp add: str_int_def)
      then have "nat i = nat j" by (rule str_nat_inj)
      with False j show ?thesis by simp
    qed
  qed
qed


lemma map_of_count_key:
  "map_of (count_key k' d) k =
     (if k = k' then Some ((case map_of d k of None \<Rightarrow> 0 | Some n \<Rightarrow> n) + 1) else map_of d k)"
  by (simp add: count_key_def update_conv')

lemma map_of_count_by:
  "map_of (count_by key calls d) k =
     (if map_of d k = None \<and> filter (\<lambda>c. key c = k) calls = [] then None
      else Some ((case map_of d k of None \<Rightarrow> 0 | Some n \<Rightarrow> n)
                 + int (length (filter (\<lambda>c. key c = k) calls))))"
proof (induction calls arbitrary: d)
  case Nil
  then show ?case by (cases "map_of d k") simp_all
next
  case (Cons call calls)
  show ?case
    by (cases "map_of d k") (auto simp: Cons.IH map_of_count_key)
qed

lemma map_of_count_by_empty:
  "map_of (count_by key calls []) k = reported (length (filter (\<lambda>c. key c = k) calls))"
  by (simp add: map_of_count_by reported_def)

lemma filter_started:
  "filter P (filter is_call_started store) = filter (\<lambda>x. is_call_started x \<and> P x) store"
  by (induction store) auto

lemma calls_by_duration_eq:
  "calls_by_duration (get_analytics now store)
     = count_by call_duration (filter is_call_started store) []"
  by (simp add: get_analytics_def Let_def)

lemma calls_by_age_eq:
  "calls_by_age (get_analytics now store)
     = count_by (\<lambda>call. str_int (child_age call)) (filter is_call_started store) []"
  by (simp add: get_analytics_def Let_def)

lemma two_groups:
  assumes "call_duration x = ''5min'' \<and> call_duration y = ''10min''
          \<or> call_duration x = ''10min'' \<and> call_duration y = ''5min''"
  shows "reported (length (filter (\<lambda>c. call_duration c = key) [x, y]))
           = [''5min'' \<mapsto> 1, ''10min'' \<mapsto> 1] key"
proof -
  have ne: "''5min'' \<noteq> ''10min''" by simp
  consider "key = ''5min''" | "key = ''10min''" | "key \<noteq> ''5min''" "key \<noteq> ''10min''"
    by blast
  then show ?thesis
  proof cases
    case 1
    with assms ne show ?thesis
      by (elim disjE conjE) (simp_all add: reported_def)
  next
    case 2
    with assms ne show ?thesis
      by (elim disjE conjE) (simp_all add: reported_def)
  next
    case 3
    with assms show ?thesis
      by (elim disjE conjE) (simp_all add: reported_def)
  qed
qed

text \<open>
  \<^bold>\<open>C8.\<close> For every log the summary reports the started calls by duration key and by
  age: \<open>calls_by_duration\<close> has for a duration the number of started calls of that
  duration, \<open>calls_by_age\<close> has under the decimal numeral of an age the number of started
  calls for a child of exactly that age, and has no other keys; groups without calls have
  no entry. When the started calls are two, one of \<open>5min\<close> and one of \<open>10min\<close>,
  \<open>calls_by_duration\<close> is \<open>{"5min": 1, "10min": 1}\<close>.
\<close>

theorem analytics_counts_by_duration_and_age:
  "map_of (calls_by_duration (get_analytics now store)) d
     = reported (started_calls_where (\<lambda>x. call_duration x = d) store)
   \<and> map_of (calls_by_age (get_analytics now store)) (str_int a)
     = reported (started_calls_where (\<lambda>x. child_age x = a) store)
   \<and> (k \<notin> range str_int \<longrightarrow> map_of (calls_by_age (get_analytics now store)) k = None)
   \<and> (map call_duration (filter is_call_started store) = [''5min'', ''10min'']
        \<or> map call_duration (filter is_call_started store) = [''10min'', ''5min'']
      \<longrightarrow> map_of (calls_by_duration (get_analytics now store))
            = [''5min'' \<mapsto> 1, ''10min'' \<mapsto> 1])"
proof (intro conjI impI)
  show "map_of (calls_by_duration (get_analytics now store)) d
     = reported (started_calls_where (\<lambda>x. call_duration x = d) store)"
    by (simp add: calls_by_duration_eq map_of_count_by_empty filter_started
        started_calls_where_def)
next
  have "(\<lambda>x. is_call_started x \<and> str_int (child_age x) = str_int a)
        = (\<lambda>x. is_call_started x \<and> child_age x = a)"
    by (auto dest: str_int_inj)
  then show "map_of (calls_by_age (get_analytics now store)) (str_int a)
     = reported (started_calls_where (\<lambda>x. child_age x = a) store)"
    by (simp add: calls_by_age_eq map_of_count_by_empty filter_started
        started_calls_where_def)
next
  assume "k \<notin> range str_int"
  then have "filter (\<lambda>x. is_call_started x \<and> str_int (child_age x) = k) store = []"
    by (auto simp: filter_empty_conv)
  then show "map_of (calls_by_age (get_analytics now store)) k = None"
    by (simp add: calls_by_age_eq map_of_count_by_empty filter_started reported_def)
next
  assume two: "map call_duration (filter is_call_started store) = [''5min'', ''10min'']
        \<or> map call_duration (filter is_call_started store) = [''10min'', ''5min'']"
  then obtain x y where xy: "filter is_call_started store = [x, y]"
    and d: "call_duration x = ''5min'' \<and> call_duration y = ''10min''
          \<or> call_duration x = ''10min'' \<and> call_duration y = ''5min''"
    by (auto simp: map_eq_Cons_conv)
  show "map_of (calls_by_duration (get_analytics now store))
            = [''5min'' \<mapsto> 1, ''10min'' \<mapsto> 1]"
  proof (rule ext)
    fix key
    have "map_of (calls_by_duration (get_analytics now store)) key
            = reported (length (filter (\<lambda>c. call_duration c = key) [x, y]))"
      by (simp only: calls_by_duration_eq xy map_of_count_by_empty)
    also have "\<dots> = [''5min'' \<mapsto> 1, ''10min'' \<mapsto> 1] key"
      by (rule two_groups [OF d])
    finally show "map_of (calls_by_duration (get_analytics now store)) key
            = [''5min'' \<mapsto> 1, ''10min'' \<mapsto> 1] key" .
  qed
qed

lemma example_not_a_numeral: "''four'' \<notin> range str_int"
proof
  assume "''four'' \<in> range str_int"
  then obtain i where i: "str_int i = ''four''" by auto
  then have "str_nat (nat i) = ''four''"
    by (simp add: str_int_def split: if_splits)
  then have "CHR ''f'' \<in> set (str_nat (nat i))" by simp
  then have "is_digit CHR ''f''" by (rule str_nat_digits)
  then show False by (simp add: is_digit_def)
qed

lemma example_counts:
  "calls_by_duration (get_analytics 0
      [Call_started 0 ''a'' 4 ''5min'' None, Call_started 60 ''b'' 11 ''10min'' None])
     = [(''5min'', 1), (''10min'', 1)]
   \<and> calls_by_age (get_analytics 0
      [Call_started 0 ''a'' 4 ''5min'' None, Call_started 60 ''b'' 11 ''10min'' None])
     = [(''4'', 1), (''11'', 1)]"
  by code_simp

theorem analytics_counts_by_duration_and_age_witness:
  "calls_by_duration (get_analytics 0
      [Call_started 0 ''a'' 4 ''5min'' None, Call_started 60 ''b'' 11 ''10min'' None])
     = [(''5min'', 1), (''10min'', 1)]
   \<and> map_of (calls_by_duration (get_analytics 0
      [Call_started 0 ''a'' 4 ''5min'' None, Call_started 60 ''b'' 11 ''10min'' None]))
     = [''5min'' \<mapsto> 1, ''10min'' \<mapsto> 1]
   \<and> map_of (calls_by_age (get_analytics 0
      [Call_started 0 ''a'' 4 ''5min'' None, Call_started 60 ''b'' 11 ''10min'' None])) (str_int 4)
     = Some 1
   \<and> map_of (calls_by_age (get_analytics 0
      [Call_started 0 ''a'' 4 ''5min'' None, Call_started 60 ''b'' 11 ''10min'' None])) ''four''
     = None"
  using example_counts example_not_a_numeral
    analytics_counts_by_duration_and_age [of 0
      "[Call_started 0 ''a'' 4 ''5min'' None, Call_started 60 ''b'' 11 ''10min'' None]"
      "''5min''" 4 "''four''"]
  by (simp add: started_calls_where_def reported_def)














end
